theory Spec2Isabelle
  imports Main
begin

section \<open>JavaScript values used by the dashboard code\<close>

text \<open>
  The snapshot fields the code reads hold a number, \<open>null\<close>, or are absent
  (\<open>undefined\<close>); arithmetic on them can give \<open>NaN\<close>. Times, positions and
  counts are whole numbers, so a number is an \<open>int\<close>.
\<close>

datatype jsval = JUndefined | JNull | JNaN | JNum int

text \<open>\<open>ToNumber\<close>: \<open>undefined\<close> becomes \<open>NaN\<close> (here \<open>None\<close>), \<open>null\<close> becomes 0.\<close>

definition to_number :: "jsval \<Rightarrow> int option" where
  "to_number v = (case v of JUndefined \<Rightarrow> None | JNull \<Rightarrow> Some 0 | JNaN \<Rightarrow> None | JNum n \<Rightarrow> Some n)"

text \<open>The operator \<open>a - b\<close>: \<open>NaN\<close> as soon as one side is.\<close>

definition js_sub :: "jsval \<Rightarrow> jsval \<Rightarrow> jsval" where
  "js_sub a b =
     (case to_number a of
        None \<Rightarrow> JNaN
      | Some x \<Rightarrow> (case to_number b of None \<Rightarrow> JNaN | Some y \<Rightarrow> JNum (x - y)))"

text \<open>Truthiness of a value in a condition: 0, \<open>NaN\<close>, \<open>null\<close>, \<open>undefined\<close> are falsy.\<close>

definition truthy :: "jsval \<Rightarrow> bool" where
  "truthy v = (case v of JNum n \<Rightarrow> n \<noteq> 0 | _ \<Rightarrow> False)"

text \<open>\<open>xs[i]\<close> on an array of numbers: \<open>undefined\<close> outside the array, never an error.\<close>

definition js_index :: "int list \<Rightarrow> int \<Rightarrow> jsval" where
  "js_index xs i = (if 0 \<le> i \<and> i < int (length xs) then JNum (xs ! nat i) else JUndefined)"

text \<open>\<open>ToIntegerOrInfinity\<close>, as \<open>Array.prototype.slice\<close> applies it: \<open>NaN\<close> becomes 0.\<close>

definition to_integer :: "jsval \<Rightarrow> int" where
  "to_integer v = (case to_number v of None \<Rightarrow> 0 | Some n \<Rightarrow> n)"

text \<open>
  \<open>Array.prototype.slice(start, end)\<close>: a negative index counts from the end, both
  indices are clamped to the array, and an \<open>undefined\<close> end means the length.
\<close>

definition js_slice :: "'a list \<Rightarrow> jsval \<Rightarrow> jsval \<Rightarrow> 'a list" where
  "js_slice xs start fin =
     (let len = int (length xs);
          relativeStart = to_integer start;
          k = (if relativeStart < 0 then max (len + relativeStart) 0 else min relativeStart len);
          relativeEnd = (case fin of JUndefined \<Rightarrow> len | _ \<Rightarrow> to_integer fin);
          final = (if relativeEnd < 0 then max (len + relativeEnd) 0 else min relativeEnd len)
      in take (nat (final - k)) (drop (nat k) xs))"

text \<open>\<open>Array.from({length: n}, (_, i) => f(i))\<close>: a negative length gives the empty array.\<close>

definition array_from :: "int \<Rightarrow> (int \<Rightarrow> 'a) \<Rightarrow> 'a list" where
  "array_from len f = map (\<lambda>i. f (int i)) [0..<nat len]"

section \<open>TelemetryRenderer: the rows around the player\<close>

subsection \<open>getAdjacentPositions\<close>

definition min_valid_lower_bound :: int where
  "min_valid_lower_bound = 1"

text \<open>
  The first \<open>if\<close>/\<open>else\<close>: the whole grid when \<open>num_adjacent_cars >= total_cars\<close>,
  otherwise the window centred on the position. (The source also overwrites
  \<open>num_adjacent_cars\<close> in the first branch and never reads it again.)
\<close>

definition initial_bounds :: "int \<Rightarrow> int \<Rightarrow> int \<Rightarrow> int \<times> int" where
  "initial_bounds position total_cars num_adjacent_cars =
     (if num_adjacent_cars \<ge> total_cars then (min_valid_lower_bound, total_cars)
      else (position - num_adjacent_cars, position + num_adjacent_cars))"

text \<open>The second \<open>if\<close>: \<open>lower_bound < min_valid_lower_bound\<close>, shift the window right.\<close>

definition lower_correction_fires :: "int \<times> int \<Rightarrow> bool" where
  "lower_correction_fires b = (fst b < min_valid_lower_bound)"

definition lower_correction :: "int \<times> int \<Rightarrow> int \<times> int" where
  "lower_correction b =
     (if lower_correction_fires b
      then (min_valid_lower_bound, snd b + (min_valid_lower_bound - fst b))
      else b)"

text \<open>The third \<open>if\<close> (not an \<open>else if\<close>): \<open>upper_bound > total_cars\<close>, shift the window left.\<close>

definition upper_correction_fires :: "int \<Rightarrow> int \<times> int \<Rightarrow> bool" where
  "upper_correction_fires total_cars b = (snd b > total_cars)"

definition upper_correction :: "int \<Rightarrow> int \<times> int \<Rightarrow> int \<times> int" where
  "upper_correction total_cars b =
     (if upper_correction_fires total_cars b
      then (fst b - (snd b - total_cars), total_cars)
      else b)"

definition corrected_bounds :: "int \<Rightarrow> int \<Rightarrow> int \<Rightarrow> int \<times> int" where
  "corrected_bounds position total_cars num_adjacent_cars =
     upper_correction total_cars (lower_correction (initial_bounds position total_cars num_adjacent_cars))"

text \<open>
  The guard \<open>!(position >= 1 && position <= total_cars)\<close> compares \<open>ToNumber(position)\<close>:
  \<open>null\<close> is 0 and fails it, \<open>undefined\<close> and \<open>NaN\<close> compare false.
\<close>

definition position_valid :: "jsval \<Rightarrow> int \<Rightarrow> bool" where
  "position_valid position total_cars =
     (case to_number position of None \<Rightarrow> False | Some p \<Rightarrow> p \<ge> 1 \<and> p \<le> total_cars)"

definition getAdjacentPositions :: "jsval \<Rightarrow> int \<Rightarrow> int \<Rightarrow> int list" where
  "getAdjacentPositions position total_cars num_adjacent_cars =
     (if \<not> position_valid position total_cars then []
      else
        let b = corrected_bounds (to_integer position) total_cars num_adjacent_cars;
            lower_bound = fst b;
            upper_bound = snd b
        in array_from (upper_bound - lower_bound + 1) (\<lambda>i. lower_bound + i))"

subsection \<open>getPlayerPosition and getRelevantRaceTableRows\<close>

record driver_data =
  index :: int
  is_player :: bool
  position :: jsval

record table_entry =
  driver_info :: driver_data

record snapshot =
  table_entries :: "table_entry list"
  is_spectating :: bool
  race_ended :: bool

text \<open>The \<open>for\<close> loop with its \<open>break\<close>: the position of the first player entry, else \<open>null\<close>.\<close>

fun getPlayerPosition_loop :: "table_entry list \<Rightarrow> jsval" where
  "getPlayerPosition_loop [] = JNull"
| "getPlayerPosition_loop (entry # rest) =
     (if is_player (driver_info entry) then position (driver_info entry)
      else getPlayerPosition_loop rest)"

definition getPlayerPosition :: "snapshot \<Rightarrow> jsval" where
  "getPlayerPosition data = getPlayerPosition_loop (table_entries data)"

text \<open>
  \<open>g_pref_numAdjacentCars\<close> is a global preference set outside these files; it is a
  parameter here.
\<close>

definition getRelevantRaceTableRows :: "snapshot \<Rightarrow> int \<Rightarrow> table_entry list" where
  "getRelevantRaceTableRows data g_pref_numAdjacentCars =
     (if length (table_entries data) = 0 then []
      else if is_spectating data \<or> race_ended data then table_entries data
      else
        let totalCars = int (length (table_entries data));
            playerPosition = getPlayerPosition data;
            relevantPositions = getAdjacentPositions playerPosition totalCars g_pref_numAdjacentCars;
            lowerIndex = js_sub (js_index relevantPositions 0) (JNum 1);
            upperIndex = js_index relevantPositions (int (length relevantPositions) - 1)
        in js_slice (table_entries data) lowerIndex upperIndex)"

section \<open>Elements of the page\<close>

text \<open>
  What the code reads and writes of a DOM element: its text and its class list.
  \<open>classList.remove\<close> drops the given tokens, \<open>classList.add\<close> appends a token
  that is not there yet.
\<close>

record element =
  textContent :: string
  classList :: "string list"

definition classList_remove :: "string list \<Rightarrow> string list \<Rightarrow> string list" where
  "classList_remove tokens cl = filter (\<lambda>c. c \<notin> set tokens) cl"

definition classList_add :: "string \<Rightarrow> string list \<Rightarrow> string list" where
  "classList_add token cl = (if token \<in> set cl then cl else cl @ [token])"

text \<open>A whole number as the decimal string JavaScript prints for it.\<close>

definition digit_char :: "nat \<Rightarrow> char" where
  "digit_char d = ''0123456789'' ! d"

fun decimal :: "nat \<Rightarrow> string" where
  "decimal n = (if n < 10 then [digit_char n] else decimal (n div 10) @ [digit_char (n mod 10)])"

declare decimal.simps [simp del]

text \<open>
  \<open>(ms / 1000).toFixed(3)\<close> for a whole number of milliseconds: the seconds, a point,
  and the three digits of the remainder.
\<close>

definition to_fixed_3 :: "nat \<Rightarrow> string" where
  "to_fixed_3 ms =
     decimal (ms div 1000) @ ''.'' @
       [digit_char (ms div 100 mod 10), digit_char (ms div 10 mod 10), digit_char (ms mod 10)]"

section \<open>PaceComparison\<close>

text \<open>
  One driver's entry of the pace data. The availability check reads the key
  \<open>last-ms\<close> and the lap delta reads the key \<open>lap-ms\<close>, so both are fields; a key
  the object does not have reads as \<open>undefined\<close>.
\<close>

record pace_data =
  name :: "string option"
  last_ms :: jsval
  lap_ms :: jsval
  sector_1_ms :: jsval
  sector_2_ms :: jsval
  sector_3_ms :: jsval

record pace_comparison_data =
  player :: pace_data
  prev :: pace_data
  nxt :: pace_data

text \<open>
  The widget's elements (the constructor collects three sector elements per side) and
  the messages written with \<open>console.error\<close>.
\<close>

record pace_widget =
  prevDriver :: element
  nextDriver :: element
  prevDelta :: element
  nextDelta :: element
  prevSectors :: "element list"
  nextSectors :: "element list"
  console_errors :: "string list"

definition formatDelta :: "jsval \<Rightarrow> string" where
  "formatDelta deltaMs =
     (if \<not> truthy deltaMs \<and> deltaMs \<noteq> JNum 0 then ''--.-''
      else
        let d = to_integer deltaMs
        in (if d > 0 then ''+'' else ''-'') @ to_fixed_3 (nat \<bar>d\<bar>))"

definition js_gt :: "jsval \<Rightarrow> int \<Rightarrow> bool" where
  "js_gt v n = (case to_number v of None \<Rightarrow> False | Some x \<Rightarrow> x > n)"

definition js_lt :: "jsval \<Rightarrow> int \<Rightarrow> bool" where
  "js_lt v n = (case to_number v of None \<Rightarrow> False | Some x \<Rightarrow> x < n)"

definition updateElementDelta :: "element \<Rightarrow> jsval \<Rightarrow> element" where
  "updateElementDelta el delta =
     (let cleared = el\<lparr>classList := classList_remove [''text-success'', ''text-danger''] (classList el)\<rparr>
      in if js_gt delta 0 then cleared\<lparr>classList := classList_add ''text-danger'' (classList cleared)\<rparr>
         else if js_lt delta 0 then cleared\<lparr>classList := classList_add ''text-success'' (classList cleared)\<rparr>
         else cleared)"

text \<open>
  \<open>truncateName(name).toUpperCase()\<close>: \<open>truncateName\<close> lives outside these files, so
  the composed formatter is the parameter \<open>displayName\<close>.
\<close>

definition getDriverName :: "(string \<Rightarrow> string) \<Rightarrow> pace_data \<Rightarrow> string" where
  "getDriverName displayName driver =
     (case name driver of None \<Rightarrow> ''---'' | Some n \<Rightarrow> displayName n)"

definition clearPrevData :: "pace_widget \<Rightarrow> pace_widget" where
  "clearPrevData w =
     w\<lparr>prevDelta := (prevDelta w)\<lparr>textContent := ''---''\<rparr>,
       prevSectors := map (\<lambda>el. el\<lparr>textContent := ''---''\<rparr>) (prevSectors w)\<rparr>"

definition clearNextData :: "pace_widget \<Rightarrow> pace_widget" where
  "clearNextData w =
     w\<lparr>nextDelta := (nextDelta w)\<lparr>textContent := ''---''\<rparr>,
       nextSectors := map (\<lambda>el. el\<lparr>textContent := ''---''\<rparr>) (nextSectors w)\<rparr>"

definition isDataAvailable :: "pace_data \<Rightarrow> bool" where
  "isDataAvailable data =
     (if last_ms data \<noteq> JNull \<and> sector_1_ms data \<noteq> JNull \<and>
         sector_2_ms data \<noteq> JNull \<and> sector_3_ms data \<noteq> JNull
      then True else False)"

text \<open>The key \<open>sector-${i+1}-ms\<close> of an entry; any other key is absent.\<close>

definition sector_ms :: "nat \<Rightarrow> pace_data \<Rightarrow> jsval" where
  "sector_ms k data =
     (if k = 1 then sector_1_ms data
      else if k = 2 then sector_2_ms data
      else if k = 3 then sector_3_ms data
      else JUndefined)"

text \<open>Writing a delta into an element: its text, then its colour class.\<close>

definition showDelta :: "element \<Rightarrow> jsval \<Rightarrow> element" where
  "showDelta el delta = updateElementDelta (el\<lparr>textContent := formatDelta delta\<rparr>) delta"

text \<open>The body of the sector loop for one \<open>i\<close>.\<close>

definition sector_step ::
  "pace_comparison_data \<Rightarrow> bool \<Rightarrow> bool \<Rightarrow> nat \<Rightarrow> pace_widget \<Rightarrow> pace_widget" where
  "sector_step data isPrevDataAvailable isNextDataAvailable i w =
     (let w1 =
            (if isPrevDataAvailable
             then
               let prevSectorDelta = js_sub (sector_ms (i + 1) (player data)) (sector_ms (i + 1) (prev data))
               in w\<lparr>prevSectors := (prevSectors w)[i := showDelta (prevSectors w ! i) prevSectorDelta]\<rparr>
             else w)
      in if isNextDataAvailable
         then
           let nextSectorDelta = js_sub (sector_ms (i + 1) (player data)) (sector_ms (i + 1) (nxt data))
           in w1\<lparr>nextSectors := (nextSectors w1)[i := showDelta (nextSectors w1 ! i) nextSectorDelta]\<rparr>
         else w1)"

text \<open>The loop \<open>for (let i = 0; i < 3; i++)\<close> over the three sectors.\<close>

definition sector_loop ::
  "pace_comparison_data \<Rightarrow> bool \<Rightarrow> bool \<Rightarrow> pace_widget \<Rightarrow> pace_widget" where
  "sector_loop data isPrevDataAvailable isNextDataAvailable w =
     fold (sector_step data isPrevDataAvailable isNextDataAvailable) [0, 1, 2] w"

definition PaceComparison_update ::
  "(string \<Rightarrow> string) \<Rightarrow> pace_comparison_data \<Rightarrow> pace_widget \<Rightarrow> pace_widget" where
  "PaceComparison_update displayName data w0 =
     (let w1 = clearNextData (clearPrevData w0);
          w2 = (if name (prev data) \<noteq> None
                then w1\<lparr>prevDriver := (prevDriver w1)\<lparr>textContent := getDriverName displayName (prev data)\<rparr>\<rparr>
                else w1);
          w3 = (if name (nxt data) \<noteq> None
                then w2\<lparr>nextDriver := (nextDriver w2)\<lparr>textContent := getDriverName displayName (nxt data)\<rparr>\<rparr>
                else w2)
      in if \<not> isDataAvailable (player data) then w3
         else
           let isPrevDataAvailable = isDataAvailable (prev data);
               isNextDataAvailable = isDataAvailable (nxt data);
               w4 = (if isPrevDataAvailable
                     then w3\<lparr>prevDelta := showDelta (prevDelta w3) (js_sub (lap_ms (player data)) (lap_ms (prev data)))\<rparr>
                     else w3);
               w5 = (if isNextDataAvailable
                     then w4\<lparr>nextDelta := showDelta (nextDelta w4) (js_sub (lap_ms (player data)) (lap_ms (nxt data)))\<rparr>
                     else w4)
           in if \<not> isPrevDataAvailable \<and> \<not> isNextDataAvailable
              then w5\<lparr>console_errors := console_errors w5 @ [''Both prev and next data are unavailable'']\<rparr>
              else sector_loop data isPrevDataAvailable isNextDataAvailable w5)"

section \<open>LapTimeTableWidget\<close>

unbundle bit_operations_syntax

text \<open>
  One entry of \<open>lap-time-history-data\<close>. \<open>tyre-set-info\<close> is \<open>null\<close> (\<open>None\<close>) or
  an object, of which only \<open>visual-tyre-compound\<close> is read.
\<close>

record lap_data =
  tyre_set_info :: "string option"
  lap_time_in_ms :: int
  lap_time_str :: string
  sector_1_time_in_ms :: int
  sector_1_time_str :: string
  sector_2_time_in_ms :: int
  sector_2_time_str :: string
  sector_3_time_in_ms :: int
  sector_3_time_str :: string
  lap_valid_bit_flags :: int

record lap_time_history =
  fastest_lap_number :: jsval
  fastest_s1_lap_number :: jsval
  fastest_s2_lap_number :: jsval
  fastest_s3_lap_number :: jsval
  global_fastest_lap_ms :: jsval
  global_fastest_s1_ms :: jsval
  global_fastest_s2_ms :: jsval
  global_fastest_s3_ms :: jsval
  lap_time_history_data :: "lap_data list"

text \<open>
  A row of the table as \<open>update\<close> fills it. The compound cell holds the tyre icons
  appended to it, each named by its compound (\<open>getTyreIconSpan\<close> is outside these files).
\<close>

record lap_row =
  lapNumCell :: element
  lapTimeCell :: element
  s1TimeCell :: element
  s2TimeCell :: element
  s3TimeCell :: element
  compoundCell :: "string list"

text \<open>\<open>row.insertCell()\<close>: an empty cell without classes.\<close>

definition insertCell :: element where
  "insertCell = \<lparr>textContent = [], classList = []\<rparr>"

definition getValidTimeStr :: "int \<Rightarrow> string \<Rightarrow> string" where
  "getValidTimeStr timeMs timeStr = (if timeMs = 0 then ''---'' else timeStr)"

text \<open>
  \<open>isValid\<close> is the number \<open>validFlags & mask\<close>; \<open>!isValid\<close> holds when it is 0.
  \<open>typeStr\<close> is passed and not read.
\<close>

definition applyColourToCell ::
  "element \<Rightarrow> int \<Rightarrow> int \<Rightarrow> jsval \<Rightarrow> jsval \<Rightarrow> int \<Rightarrow> string \<Rightarrow> element" where
  "applyColourToCell cell lapNum time globalBestTime pbLapNum isValid typeStr =
     (if truthy globalBestTime \<and> JNum time = globalBestTime
      then cell\<lparr>classList := classList_add ''text-purple'' (classList cell)\<rparr>
      else if truthy pbLapNum \<and> JNum lapNum = pbLapNum
      then cell\<lparr>classList := classList_add ''text-success'' (classList cell)\<rparr>
      else if isValid = 0
      then cell\<lparr>classList := classList_add ''text-danger'' (classList cell)\<rparr>
      else cell)"

definition numRows :: nat where
  "numRows = 5"

definition lapValidMask :: int where
  "lapValidMask = 1"

definition s1ValidMask :: int where
  "s1ValidMask = 2"

definition s2ValidMask :: int where
  "s2ValidMask = 4"

definition s3ValidMask :: int where
  "s3ValidMask = 8"

text \<open>The body of the loop for index \<open>i\<close>: the row inserted for \<open>lapHistoryData[i]\<close>.\<close>

definition render_row :: "lap_time_history \<Rightarrow> int \<Rightarrow> lap_row" where
  "render_row h i =
     (let lapData = lap_time_history_data h ! nat i;
          lapNumber = i + 1;
          compound = (case tyre_set_info lapData of None \<Rightarrow> [] | Some c \<Rightarrow> c);
          validFlags = lap_valid_bit_flags lapData
      in \<lparr>lapNumCell = insertCell\<lparr>textContent := decimal (nat lapNumber)\<rparr>,
          lapTimeCell =
            applyColourToCell
              (insertCell\<lparr>textContent := getValidTimeStr (lap_time_in_ms lapData) (lap_time_str lapData)\<rparr>)
              lapNumber (lap_time_in_ms lapData) (global_fastest_lap_ms h) (fastest_lap_number h)
              (validFlags AND lapValidMask) ''lap'',
          s1TimeCell =
            applyColourToCell
              (insertCell\<lparr>textContent := getValidTimeStr (sector_1_time_in_ms lapData) (sector_1_time_str lapData)\<rparr>)
              lapNumber (sector_1_time_in_ms lapData) (global_fastest_s1_ms h) (fastest_s1_lap_number h)
              (validFlags AND s1ValidMask) ''s1'',
          s2TimeCell =
            applyColourToCell
              (insertCell\<lparr>textContent := getValidTimeStr (sector_2_time_in_ms lapData) (sector_2_time_str lapData)\<rparr>)
              lapNumber (sector_2_time_in_ms lapData) (global_fastest_s2_ms h) (fastest_s2_lap_number h)
              (validFlags AND s2ValidMask) ''s2'',
          s3TimeCell =
            applyColourToCell
              (insertCell\<lparr>textContent := getValidTimeStr (sector_3_time_in_ms lapData) (sector_3_time_str lapData)\<rparr>)
              lapNumber (sector_3_time_in_ms lapData) (global_fastest_s3_ms h) (fastest_s3_lap_number h)
              (validFlags AND s3ValidMask) ''s3'',
          compoundCell = (if compound \<noteq> [] then [compound] else [])\<rparr>)"

text \<open>
  The loop \<open>for (i = length - 1; i >= 0 && count < numRows; i--, count++)\<close>, each pass
  appending its row to the table.
\<close>

function update_loop :: "lap_time_history \<Rightarrow> int \<Rightarrow> nat \<Rightarrow> lap_row list \<Rightarrow> lap_row list" where
  "update_loop h i count rows =
     (if i \<ge> 0 \<and> count < numRows then update_loop h (i - 1) (count + 1) (rows @ [render_row h i])
      else rows)"
  by pat_completeness auto
termination
  by (relation "measure (\<lambda>(h, i, count, rows). nat (i + 1))") auto

declare update_loop.simps [simp del]

text \<open>
  \<open>update\<close>: the rows of the table after the call (the table is cleared first, and a
  \<open>null\<close> history leaves it empty).
\<close>

definition LapTimeTableWidget_update :: "lap_time_history option \<Rightarrow> lap_row list" where
  "LapTimeTableWidget_update lapTimeHistory =
     (case lapTimeHistory of
        None \<Rightarrow> []
      | Some h \<Rightarrow> update_loop h (int (length (lap_time_history_data h)) - 1) 0 [])"

section \<open>Vocabulary of the properties\<close>

text \<open>
  An element shows a pace delta: its text is the formatted delta, it carries the
  danger class exactly when the delta is positive (slower) and the success class
  exactly when it is negative (faster).
\<close>

definition shows_delta :: "element \<Rightarrow> int \<Rightarrow> bool" where
  "shows_delta el delta =
     (textContent el = formatDelta (JNum delta) \<and>
      (''text-danger'' \<in> set (classList el)) = (delta > 0) \<and>
      (''text-success'' \<in> set (classList el)) = (delta < 0))"

text \<open>
  The precedence order of the lap-time colours, as the specification words it:
  fastest overall, then personal best, then invalid, then no colour; only the first
  rule that matches applies.
\<close>

definition first_matching_rule :: "bool \<Rightarrow> bool \<Rightarrow> bool \<Rightarrow> string list" where
  "first_matching_rule fastest_overall personal_best invalid_flagged =
     (if fastest_overall then [''text-purple'']
      else if personal_best then [''text-success'']
      else if invalid_flagged then [''text-danger'']
      else [])"

section \<open>Example inputs\<close>

text \<open>Three cars, the player leading; and the same grid with no player entry.\<close>

definition example_grid :: snapshot where
  "example_grid =
     \<lparr>table_entries =
        [\<lparr>driver_info = \<lparr>index = 7, is_player = True, position = JNum 1\<rparr>\<rparr>,
         \<lparr>driver_info = \<lparr>index = 3, is_player = False, position = JNum 2\<rparr>\<rparr>,
         \<lparr>driver_info = \<lparr>index = 11, is_player = False, position = JNum 3\<rparr>\<rparr>],
      is_spectating = False, race_ended = False\<rparr>"

definition example_grid_no_player :: snapshot where
  "example_grid_no_player =
     \<lparr>table_entries =
        [\<lparr>driver_info = \<lparr>index = 7, is_player = False, position = JNum 1\<rparr>\<rparr>,
         \<lparr>driver_info = \<lparr>index = 3, is_player = False, position = JNum 2\<rparr>\<rparr>],
      is_spectating = False, race_ended = False\<rparr>"

text \<open>Two cars, the player entry carrying position 5.\<close>

definition example_grid_bad_position :: snapshot where
  "example_grid_bad_position =
     \<lparr>table_entries =
        [\<lparr>driver_info = \<lparr>index = 7, is_player = False, position = JNum 1\<rparr>\<rparr>,
         \<lparr>driver_info = \<lparr>index = 3, is_player = True, position = JNum 5\<rparr>\<rparr>],
      is_spectating = False, race_ended = False\<rparr>"

text \<open>A widget as the constructor finds it: empty elements, three sectors per side.\<close>

definition example_widget :: pace_widget where
  "example_widget =
     \<lparr>prevDriver = \<lparr>textContent = [], classList = []\<rparr>,
      nextDriver = \<lparr>textContent = [], classList = []\<rparr>,
      prevDelta = \<lparr>textContent = [], classList = []\<rparr>,
      nextDelta = \<lparr>textContent = [], classList = []\<rparr>,
      prevSectors =
        [\<lparr>textContent = [], classList = []\<rparr>, \<lparr>textContent = [], classList = []\<rparr>,
         \<lparr>textContent = [], classList = []\<rparr>],
      nextSectors =
        [\<lparr>textContent = [], classList = []\<rparr>, \<lparr>textContent = [], classList = []\<rparr>,
         \<lparr>textContent = [], classList = []\<rparr>],
      console_errors = []\<rparr>"

text \<open>
  Pace data with every time present: the player laps in 90000 ms, the car ahead in
  91200 ms, the car behind in 90000 ms.
\<close>

definition example_pace :: pace_comparison_data where
  "example_pace =
     \<lparr>player = \<lparr>name = Some ''A'', last_ms = JNum 90000, lap_ms = JNum 90000,
                 sector_1_ms = JNum 30000, sector_2_ms = JNum 30100, sector_3_ms = JNum 29900\<rparr>,
      prev = \<lparr>name = Some ''B'', last_ms = JNum 91200, lap_ms = JNum 91200,
               sector_1_ms = JNum 30400, sector_2_ms = JNum 30100, sector_3_ms = JNum 30700\<rparr>,
      nxt = \<lparr>name = Some ''C'', last_ms = JNum 90000, lap_ms = JNum 90000,
              sector_1_ms = JNum 29800, sector_2_ms = JNum 30100, sector_3_ms = JNum 30100\<rparr>\<rparr>"

text \<open>
  Pace data whose entries carry the key \<open>lap-ms\<close> and no key \<open>last-ms\<close>: the player
  has sector times and a \<open>null\<close> lap time, the car ahead has all its times, there is
  no car behind.
\<close>

definition example_pace_no_lap :: pace_comparison_data where
  "example_pace_no_lap =
     \<lparr>player = \<lparr>name = Some ''A'', last_ms = JUndefined, lap_ms = JNull,
                 sector_1_ms = JNum 30000, sector_2_ms = JNum 30000, sector_3_ms = JNum 30000\<rparr>,
      prev = \<lparr>name = Some ''B'', last_ms = JUndefined, lap_ms = JNum 91200,
               sector_1_ms = JNum 30400, sector_2_ms = JNum 30400, sector_3_ms = JNum 30400\<rparr>,
      nxt = \<lparr>name = None, last_ms = JNull, lap_ms = JNull,
              sector_1_ms = JNull, sector_2_ms = JNull, sector_3_ms = JNull\<rparr>\<rparr>"

text \<open>
  A history of two laps: lap 1 is the driver's best and the fastest of the session,
  lap 2 is under way, with only its first sector set.
\<close>

definition example_history :: lap_time_history where
  "example_history =
     \<lparr>fastest_lap_number = JNum 1, fastest_s1_lap_number = JNum 2,
      fastest_s2_lap_number = JNum 1, fastest_s3_lap_number = JNum 1,
      global_fastest_lap_ms = JNum 91200, global_fastest_s1_ms = JNum 29800,
      global_fastest_s2_ms = JNum 30100, global_fastest_s3_ms = JNum 30500,
      lap_time_history_data =
        [\<lparr>tyre_set_info = Some ''Soft'', lap_time_in_ms = 91200, lap_time_str = ''01:31.200'',
          sector_1_time_in_ms = 30400, sector_1_time_str = ''30.400'',
          sector_2_time_in_ms = 30100, sector_2_time_str = ''30.100'',
          sector_3_time_in_ms = 30700, sector_3_time_str = ''30.700'',
          lap_valid_bit_flags = 15\<rparr>,
         \<lparr>tyre_set_info = None, lap_time_in_ms = 0, lap_time_str = ''00:00.000'',
          sector_1_time_in_ms = 30000, sector_1_time_str = ''30.000'',
          sector_2_time_in_ms = 0, sector_2_time_str = ''00.000'',
          sector_3_time_in_ms = 0, sector_3_time_str = ''00.000'',
          lap_valid_bit_flags = 13\<rparr>]\<rparr>"

section \<open>Properties of the row window\<close>

lemmas bounds_defs = corrected_bounds_def upper_correction_def upper_correction_fires_def
  lower_correction_def lower_correction_fires_def initial_bounds_def min_valid_lower_bound_def

lemmas window_defs = getAdjacentPositions_def position_valid_def to_number_def to_integer_def
  array_from_def bounds_defs

lemma getAdjacentPositions_invalid:
  "\<not> position_valid v n \<Longrightarrow> getAdjacentPositions v n r = []"
  by (simp add: getAdjacentPositions_def)

lemma getAdjacentPositions_valid:
  "1 \<le> p \<Longrightarrow> p \<le> n \<Longrightarrow>
   getAdjacentPositions (JNum p) n r =
     map (\<lambda>i. fst (corrected_bounds p n r) + int i)
       [0..<nat (snd (corrected_bounds p n r) - fst (corrected_bounds p n r) + 1)]"
  by (simp add: getAdjacentPositions_def position_valid_def to_number_def to_integer_def
      array_from_def Let_def)

lemma corrected_bounds_around:
  "1 \<le> p \<Longrightarrow> p \<le> n \<Longrightarrow> 0 \<le> r \<Longrightarrow>
   fst (corrected_bounds p n r) \<le> p \<and> p \<le> snd (corrected_bounds p n r)"
  by (simp add: bounds_defs)

text \<open>
  Where the grid has room for the whole window (\<open>2 * r + 1 \<le> n\<close>), or the radius covers
  the grid (\<open>n \<le> r\<close>), the bounds stay inside the grid, the width is
  \<open>min (2 * r + 1) n\<close>, and at most one of the two corrections fires.
\<close>

lemma corrected_bounds_inside_when_room:
  assumes "1 \<le> p" "p \<le> n" "0 \<le> r" "n \<le> r \<or> 2 * r + 1 \<le> n"
  shows "1 \<le> fst (corrected_bounds p n r) \<and>
         fst (corrected_bounds p n r) \<le> snd (corrected_bounds p n r) \<and>
         snd (corrected_bounds p n r) \<le> n \<and>
         snd (corrected_bounds p n r) - fst (corrected_bounds p n r) + 1 = min (2 * r + 1) n"
  using assms by (auto simp add: bounds_defs)

lemma one_correction_when_room:
  assumes "1 \<le> p" "p \<le> n" "0 \<le> r" "n \<le> r \<or> 2 * r + 1 \<le> n"
  shows "\<not> (lower_correction_fires (initial_bounds p n r) \<and>
            upper_correction_fires n (lower_correction (initial_bounds p n r)))"
  using assms by (auto simp add: bounds_defs)

text \<open>
  In between (\<open>r < n < 2 * r + 1\<close>) the window always ends as \<open>[n - 2 * r, n]\<close>, whose
  lower bound is below 1.
\<close>

lemma corrected_bounds_when_no_room:
  assumes "1 \<le> p" "p \<le> n" "0 \<le> r" "r < n" "n < 2 * r + 1"
  shows "corrected_bounds p n r = (n - 2 * r, n)"
  using assms by (auto simp add: bounds_defs)

text \<open>
  Claim C1: for every total count of at least 1, every position within the grid and every
  radius of at least 0, \<open>getAdjacentPositions\<close> returns a range \<open>[lo, hi]\<close> with
  \<open>1 \<le> lo \<le> hi \<le> totalCount\<close> and width \<open>min (2 * radius + 1) totalCount\<close>.
  The code breaks this for three cars and radius 2: the window of the leader is
  \<open>[-1, 3]\<close>, five positions of which two are not on the grid.
\<close>

theorem adjacent_positions_leave_grid:
  "getAdjacentPositions (JNum 1) 3 2 = [-1, 0, 1, 2, 3]"
  by (simp add: window_defs upt_rec)

text \<open>
  What the caller makes of that window: \<open>slice(-2, 3)\<close> keeps the last two rows, and
  the player's own row, the first, is not shown.
\<close>

lemma player_row_dropped_example:
  "getRelevantRaceTableRows example_grid 2 = tl (table_entries example_grid)"
  by code_simp

text \<open>
  Claim C2: in one call with a position within the grid, at most one of the two boundary
  corrections is applied, because the full-range case guarantees
  \<open>totalCount \<ge> 2 * radius + 1\<close> whenever the shifting branch runs.
  The full-range case only excludes \<open>radius \<ge> totalCount\<close>: for three cars and radius 2
  the position is valid, the lower correction fires, and the upper correction fires on
  its result.
\<close>

theorem both_corrections_fire:
  "position_valid (JNum 1) 3 \<and>
   lower_correction_fires (initial_bounds 1 3 2) \<and>
   upper_correction_fires 3 (lower_correction (initial_bounds 1 3 2))"
  by (simp add: position_valid_def to_number_def bounds_defs)

text \<open>
  Claim C5: the four worked examples. Position 1 of 20 with radius 3 gives 1 to 7,
  position 20 gives 14 to 20, position 10 gives 7 to 13, and position 5 of 3 gives the
  empty sequence.
\<close>

theorem adjacent_positions_examples:
  "getAdjacentPositions (JNum 1) 20 3 = [1, 2, 3, 4, 5, 6, 7] \<and>
   getAdjacentPositions (JNum 20) 20 3 = [14, 15, 16, 17, 18, 19, 20] \<and>
   getAdjacentPositions (JNum 10) 20 3 = [7, 8, 9, 10, 11, 12, 13] \<and>
   getAdjacentPositions (JNum 5) 3 3 = []"
  by (simp add: window_defs upt_rec)

text \<open>
  Claim C9, amended with a radius of at least 0: for a position within the grid the
  returned array is not empty, each element is the previous plus one, and the position
  itself is among them.
\<close>

theorem adjacent_positions_contain_position:
  assumes "1 \<le> p" "p \<le> n" "0 \<le> r"
  shows "getAdjacentPositions (JNum p) n r \<noteq> [] \<and>
         (\<forall>i. Suc i < length (getAdjacentPositions (JNum p) n r) \<longrightarrow>
            getAdjacentPositions (JNum p) n r ! Suc i = getAdjacentPositions (JNum p) n r ! i + 1) \<and>
         p \<in> set (getAdjacentPositions (JNum p) n r)"
proof -
  define lo where "lo = fst (corrected_bounds p n r)"
  define hi where "hi = snd (corrected_bounds p n r)"
  have eq: "getAdjacentPositions (JNum p) n r = map (\<lambda>i. lo + int i) [0..<nat (hi - lo + 1)]"
    unfolding lo_def hi_def using assms(1,2) by (rule getAdjacentPositions_valid)
  have around: "lo \<le> p" "p \<le> hi"
    unfolding lo_def hi_def using corrected_bounds_around [OF assms] by simp_all
  have nonempty: "getAdjacentPositions (JNum p) n r \<noteq> []"
    using around by (simp add: eq)
  have step: "\<forall>i. Suc i < length (getAdjacentPositions (JNum p) n r) \<longrightarrow>
     getAdjacentPositions (JNum p) n r ! Suc i = getAdjacentPositions (JNum p) n r ! i + 1"
    by (simp add: eq)
  have "p = lo + int (nat (p - lo))" "nat (p - lo) < nat (hi - lo + 1)"
    using around by simp_all
  then have mem: "p \<in> set (getAdjacentPositions (JNum p) n r)"
    unfolding eq set_map set_upt by (metis atLeastLessThan_iff image_eqI le0)
  from nonempty step mem show ?thesis by blast
qed

theorem adjacent_positions_contain_position_witness:
  "getAdjacentPositions (JNum 20) 20 3 \<noteq> [] \<and>
   getAdjacentPositions (JNum 20) 20 3 ! Suc 5 = getAdjacentPositions (JNum 20) 20 3 ! 5 + 1 \<and>
   20 \<in> set (getAdjacentPositions (JNum 20) 20 3)"
proof -
  have len: "Suc 5 < length (getAdjacentPositions (JNum 20) 20 3)"
    by (simp add: window_defs)
  have all: "getAdjacentPositions (JNum 20) 20 3 \<noteq> [] \<and>
         (\<forall>i. Suc i < length (getAdjacentPositions (JNum 20) 20 3) \<longrightarrow>
            getAdjacentPositions (JNum 20) 20 3 ! Suc i = getAdjacentPositions (JNum 20) 20 3 ! i + 1) \<and>
         20 \<in> set (getAdjacentPositions (JNum 20) 20 3)"
    using adjacent_positions_contain_position [of 20 20 3] by simp
  from all len show ?thesis
    by blast
qed

text \<open>
  The claim C9 as written leaves the radius free: with radius -1 the window of a valid
  position is empty.
\<close>

theorem adjacent_positions_negative_radius_counterexample:
  "position_valid (JNum 2) 3 \<and> getAdjacentPositions (JNum 2) 3 (- 1) = []"
  by (simp add: window_defs)

section \<open>Properties of the row selection\<close>

lemma js_slice_whole: "js_slice xs JNaN JUndefined = xs"
  by (simp add: js_slice_def to_integer_def to_number_def)

text \<open>
  An empty window makes the caller compute \<open>undefined - 1\<close> and \<open>undefined\<close> as the slice
  indices, and \<open>slice(NaN, undefined)\<close> is the whole array.
\<close>

lemma rows_when_position_invalid:
  assumes "\<not> position_valid (getPlayerPosition d) (int (length (table_entries d)))"
  shows "getRelevantRaceTableRows d r = table_entries d"
proof -
  have "getAdjacentPositions (getPlayerPosition d) (int (length (table_entries d))) r = []"
    using assms by (rule getAdjacentPositions_invalid)
  then show ?thesis
    by (simp add: getRelevantRaceTableRows_def Let_def js_index_def js_sub_def to_number_def
        js_slice_whole)
qed

lemma no_player_position:
  "\<forall>e \<in> set es. \<not> is_player (driver_info e) \<Longrightarrow> getPlayerPosition_loop es = JNull"
  by (induction es) simp_all

lemma null_position_invalid: "\<not> position_valid JNull n"
  by (simp add: position_valid_def to_number_def)

text \<open>
  Claim C3, amended: for every position outside the grid (\<open>null\<close> included)
  \<open>getAdjacentPositions\<close> returns the empty sequence, and \<open>getRelevantRaceTableRows\<close>,
  whose player position is such a one, then returns the full list of rows.
\<close>

theorem malformed_position_shows_all_rows:
  "(\<not> position_valid v n \<longrightarrow> getAdjacentPositions v n r = []) \<and>
   (\<not> position_valid (getPlayerPosition d) (int (length (table_entries d))) \<longrightarrow>
      getRelevantRaceTableRows d r = table_entries d)"
  using getAdjacentPositions_invalid rows_when_position_invalid by blast

theorem malformed_position_shows_all_rows_witness:
  "\<not> position_valid (JNum 5) 2 \<and>
   getAdjacentPositions (JNum 5) 2 3 = [] \<and>
   getPlayerPosition example_grid_bad_position = JNum 5 \<and>
   getRelevantRaceTableRows example_grid_bad_position 3 = table_entries example_grid_bad_position"
  using malformed_position_shows_all_rows [of "JNum 5" 2 3 example_grid_bad_position]
  by (simp add: position_valid_def to_number_def getPlayerPosition_def example_grid_bad_position_def)

text \<open>
  The claim C3 as written has the caller produce an empty row list: with the player at
  position 5 of 2, and with no player at all (position \<open>null\<close>), the window is empty and
  the caller returns rows.
\<close>

theorem malformed_position_rows_counterexample:
  "getAdjacentPositions (getPlayerPosition example_grid_bad_position) 2 3 = [] \<and>
   getRelevantRaceTableRows example_grid_bad_position 3 \<noteq> [] \<and>
   getAdjacentPositions (getPlayerPosition example_grid_no_player) 2 3 = [] \<and>
   getRelevantRaceTableRows example_grid_no_player 3 \<noteq> []"
  by code_simp

text \<open>
  Claim C4: for a snapshot with a non-empty list of entries, not spectating, the race not
  ended, and no entry marked as the player, \<open>getRelevantRaceTableRows\<close> returns the full
  list of entries unchanged.
\<close>

theorem missing_player_shows_all_rows:
  assumes "table_entries d \<noteq> []" "\<not> is_spectating d" "\<not> race_ended d"
    and "\<forall>e \<in> set (table_entries d). \<not> is_player (driver_info e)"
  shows "getRelevantRaceTableRows d r = table_entries d"
proof -
  have "getPlayerPosition d = JNull"
    unfolding getPlayerPosition_def using assms(4) by (rule no_player_position)
  then have "\<not> position_valid (getPlayerPosition d) (int (length (table_entries d)))"
    by (simp add: null_position_invalid)
  then show ?thesis
    by (rule rows_when_position_invalid)
qed

theorem missing_player_shows_all_rows_witness:
  "table_entries example_grid_no_player \<noteq> [] \<and>
   getRelevantRaceTableRows example_grid_no_player 3 = table_entries example_grid_no_player"
  using missing_player_shows_all_rows [of example_grid_no_player 3]
  by (simp add: example_grid_no_player_def)

section \<open>Properties of the pace comparison\<close>

lemma showDelta_text: "textContent (showDelta el delta) = formatDelta delta"
  by (simp add: showDelta_def updateElementDelta_def Let_def)

lemma showDelta_danger:
  "(''text-danger'' \<in> set (classList (showDelta el (JNum d)))) = (d > 0)"
  by (simp add: showDelta_def updateElementDelta_def Let_def js_gt_def js_lt_def to_number_def
      classList_add_def classList_remove_def)

lemma showDelta_success:
  "(''text-success'' \<in> set (classList (showDelta el (JNum d)))) = (d < 0)"
  by (simp add: showDelta_def updateElementDelta_def Let_def js_gt_def js_lt_def to_number_def
      classList_add_def classList_remove_def)

lemma js_sub_nums: "js_sub (JNum a) (JNum b) = JNum (a - b)"
  by (simp add: js_sub_def to_number_def)

lemma shows_delta_showDelta: "shows_delta (showDelta el (JNum d)) d"
  by (simp add: shows_delta_def showDelta_text showDelta_danger showDelta_success)

lemma sector_step_prev:
  "prevSectors (sector_step data p n i w) =
     (if p then (prevSectors w)[i := showDelta (prevSectors w ! i)
          (js_sub (sector_ms (i + 1) (player data)) (sector_ms (i + 1) (prev data)))]
      else prevSectors w)"
  by (simp add: sector_step_def Let_def)

lemma sector_step_next:
  "nextSectors (sector_step data p n i w) =
     (if n then (nextSectors w)[i := showDelta (nextSectors w ! i)
          (js_sub (sector_ms (i + 1) (player data)) (sector_ms (i + 1) (nxt data)))]
      else nextSectors w)"
  by (simp add: sector_step_def Let_def)

lemma sector_step_deltas:
  "prevDelta (sector_step data p n i w) = prevDelta w"
  "nextDelta (sector_step data p n i w) = nextDelta w"
  "console_errors (sector_step data p n i w) = console_errors w"
  by (simp_all add: sector_step_def Let_def)

lemma sector_loop_prev:
  assumes "length (prevSectors w) = 3" "i < 3"
  shows "prevSectors (sector_loop data True n w) ! i =
     showDelta (prevSectors w ! i) (js_sub (sector_ms (i + 1) (player data)) (sector_ms (i + 1) (prev data)))"
proof -
  from assms(2) consider "i = 0" | "i = 1" | "i = 2" by linarith
  then show ?thesis
    using assms(1) by cases (simp_all add: sector_loop_def sector_step_prev)
qed

lemma sector_loop_next:
  assumes "length (nextSectors w) = 3" "i < 3"
  shows "nextSectors (sector_loop data p True w) ! i =
     showDelta (nextSectors w ! i) (js_sub (sector_ms (i + 1) (player data)) (sector_ms (i + 1) (nxt data)))"
proof -
  from assms(2) consider "i = 0" | "i = 1" | "i = 2" by linarith
  then show ?thesis
    using assms(1) by cases (simp_all add: sector_loop_def sector_step_next)
qed

lemma sector_loop_deltas:
  "prevDelta (sector_loop data p n w) = prevDelta w"
  "nextDelta (sector_loop data p n w) = nextDelta w"
  by (simp_all add: sector_loop_def sector_step_deltas)

lemma update_prevDelta:
  assumes "isDataAvailable (player data)" "isDataAvailable (prev data)"
  shows "prevDelta (PaceComparison_update dn data w) =
     showDelta ((prevDelta w)\<lparr>textContent := ''---''\<rparr>) (js_sub (lap_ms (player data)) (lap_ms (prev data)))"
  using assms
  by (simp add: PaceComparison_update_def Let_def sector_loop_deltas clearPrevData_def clearNextData_def)

lemma update_nextDelta:
  assumes "isDataAvailable (player data)" "isDataAvailable (nxt data)"
  shows "nextDelta (PaceComparison_update dn data w) =
     showDelta ((nextDelta w)\<lparr>textContent := ''---''\<rparr>) (js_sub (lap_ms (player data)) (lap_ms (nxt data)))"
  using assms
  by (simp add: PaceComparison_update_def Let_def sector_loop_deltas clearPrevData_def clearNextData_def)

lemma update_prevSectors:
  assumes "isDataAvailable (player data)" "isDataAvailable (prev data)"
    and "length (prevSectors w) = 3" "i < 3"
  shows "prevSectors (PaceComparison_update dn data w) ! i =
     showDelta ((prevSectors w ! i)\<lparr>textContent := ''---''\<rparr>)
       (js_sub (sector_ms (i + 1) (player data)) (sector_ms (i + 1) (prev data)))"
  using assms
  by (simp add: PaceComparison_update_def Let_def sector_loop_prev clearPrevData_def clearNextData_def)

lemma update_nextSectors:
  assumes "isDataAvailable (player data)" "isDataAvailable (nxt data)"
    and "length (nextSectors w) = 3" "i < 3"
  shows "nextSectors (PaceComparison_update dn data w) ! i =
     showDelta ((nextSectors w ! i)\<lparr>textContent := ''---''\<rparr>)
       (js_sub (sector_ms (i + 1) (player data)) (sector_ms (i + 1) (nxt data)))"
  using assms
  by (simp add: PaceComparison_update_def Let_def sector_loop_next clearPrevData_def clearNextData_def)

text \<open>
  Claim C7: every pace delta is the player's time minus the neighbour's, and its class
  follows the sign: positive is slower (danger), negative is faster (success), zero is
  neither. The four conjuncts are the lap delta and the sector deltas, against the car
  ahead and the car behind.
\<close>

theorem pace_delta_sign_classes:
  assumes "isDataAvailable (player data)"
  shows
    "(isDataAvailable (prev data) \<and> lap_ms (player data) = JNum a \<and> lap_ms (prev data) = JNum b \<longrightarrow>
        shows_delta (prevDelta (PaceComparison_update dn data w)) (a - b)) \<and>
     (isDataAvailable (nxt data) \<and> lap_ms (player data) = JNum a \<and> lap_ms (nxt data) = JNum c \<longrightarrow>
        shows_delta (nextDelta (PaceComparison_update dn data w)) (a - c)) \<and>
     (isDataAvailable (prev data) \<and> length (prevSectors w) = 3 \<and> i < 3 \<and>
      sector_ms (i + 1) (player data) = JNum s \<and> sector_ms (i + 1) (prev data) = JNum t \<longrightarrow>
        shows_delta (prevSectors (PaceComparison_update dn data w) ! i) (s - t)) \<and>
     (isDataAvailable (nxt data) \<and> length (nextSectors w) = 3 \<and> i < 3 \<and>
      sector_ms (i + 1) (player data) = JNum s \<and> sector_ms (i + 1) (nxt data) = JNum u \<longrightarrow>
        shows_delta (nextSectors (PaceComparison_update dn data w) ! i) (s - u))"
proof (intro conjI impI)
  assume "isDataAvailable (prev data) \<and> lap_ms (player data) = JNum a \<and> lap_ms (prev data) = JNum b"
  then show "shows_delta (prevDelta (PaceComparison_update dn data w)) (a - b)"
    using assms by (simp add: update_prevDelta js_sub_nums shows_delta_showDelta)
next
  assume "isDataAvailable (nxt data) \<and> lap_ms (player data) = JNum a \<and> lap_ms (nxt data) = JNum c"
  then show "shows_delta (nextDelta (PaceComparison_update dn data w)) (a - c)"
    using assms by (simp add: update_nextDelta js_sub_nums shows_delta_showDelta)
next
  assume "isDataAvailable (prev data) \<and> length (prevSectors w) = 3 \<and> i < 3 \<and>
      sector_ms (i + 1) (player data) = JNum s \<and> sector_ms (i + 1) (prev data) = JNum t"
  then show "shows_delta (prevSectors (PaceComparison_update dn data w) ! i) (s - t)"
    using assms by (simp add: update_prevSectors js_sub_nums shows_delta_showDelta)
next
  assume "isDataAvailable (nxt data) \<and> length (nextSectors w) = 3 \<and> i < 3 \<and>
      sector_ms (i + 1) (player data) = JNum s \<and> sector_ms (i + 1) (nxt data) = JNum u"
  then show "shows_delta (nextSectors (PaceComparison_update dn data w) ! i) (s - u)"
    using assms by (simp add: update_nextSectors js_sub_nums shows_delta_showDelta)
qed


text \<open>
  The example of the claim: the player's 90000 ms against 91200 ms gives -1200, shown as
  faster; an equal lap gives 0, and a sector 200 ms slower is shown as slower.
\<close>

theorem pace_delta_sign_classes_witness:
  "shows_delta (prevDelta (PaceComparison_update (\<lambda>n. n) example_pace example_widget)) (- 1200) \<and>
   ''text-success'' \<in> set (classList (prevDelta (PaceComparison_update (\<lambda>n. n) example_pace example_widget))) \<and>
   shows_delta (nextDelta (PaceComparison_update (\<lambda>n. n) example_pace example_widget)) 0 \<and>
   shows_delta (prevSectors (PaceComparison_update (\<lambda>n. n) example_pace example_widget) ! 0) (- 400) \<and>
   shows_delta (nextSectors (PaceComparison_update (\<lambda>n. n) example_pace example_widget) ! 0) 200 \<and>
   ''text-danger'' \<in> set (classList (nextSectors (PaceComparison_update (\<lambda>n. n) example_pace example_widget) ! 0))"
proof -
  have avail: "isDataAvailable (player example_pace)" "isDataAvailable (prev example_pace)"
    "isDataAvailable (nxt example_pace)"
    by (simp_all add: isDataAvailable_def example_pace_def)
  have laps: "lap_ms (player example_pace) = JNum 90000" "lap_ms (prev example_pace) = JNum 91200"
    "lap_ms (nxt example_pace) = JNum 90000"
    by (simp_all add: example_pace_def)
  have sectors: "sector_ms (0 + 1) (player example_pace) = JNum 30000"
    "sector_ms (0 + 1) (prev example_pace) = JNum 30400"
    "sector_ms (0 + 1) (nxt example_pace) = JNum 29800"
    by (simp_all add: sector_ms_def example_pace_def)
  have lens: "length (prevSectors example_widget) = 3" "length (nextSectors example_widget) = 3"
    by (simp_all add: example_widget_def)
  have shown:
    "shows_delta (prevDelta (PaceComparison_update (\<lambda>n. n) example_pace example_widget)) (- 1200) \<and>
     shows_delta (nextDelta (PaceComparison_update (\<lambda>n. n) example_pace example_widget)) 0 \<and>
     shows_delta (prevSectors (PaceComparison_update (\<lambda>n. n) example_pace example_widget) ! 0) (- 400) \<and>
     shows_delta (nextSectors (PaceComparison_update (\<lambda>n. n) example_pace example_widget) ! 0) 200"
    using pace_delta_sign_classes [OF avail(1), of 90000 91200 "\<lambda>n. n" example_widget 90000 0 30000 30400 29800]
      avail laps sectors lens
    by simp
  then show ?thesis
    by (simp add: shows_delta_def)
qed

text \<open>Evaluating \<open>update\<close> on an example unfolds all of it.\<close>

lemmas pace_eval_defs = PaceComparison_update_def Let_def clearPrevData_def clearNextData_def
  isDataAvailable_def getDriverName_def showDelta_def updateElementDelta_def formatDelta_def
  js_sub_def to_number_def to_integer_def truthy_def js_gt_def js_lt_def classList_add_def
  classList_remove_def to_fixed_3_def digit_char_def decimal.simps sector_loop_def
  sector_step_def sector_ms_def example_widget_def

text \<open>
  Claim C6: for each neighbour the lap and sector deltas are shown only when the player's
  and that neighbour's corresponding time fields are all present (not \<open>null\<close>), a slot
  with missing data keeps the placeholder, and with no valid neighbour the update logs
  and shows no comparison.
  The availability check reads \<open>last-ms\<close> where the lap delta reads \<open>lap-ms\<close>: with
  entries that carry \<open>lap-ms\<close>, a \<open>null\<close> lap time of the player passes the check and
  the lap slot of the car ahead shows a delta of -91.200 as faster.
\<close>

theorem lap_delta_shown_without_lap_time:
  "lap_ms (player example_pace_no_lap) = JNull \<and>
   prevDelta (PaceComparison_update (\<lambda>n. n) example_pace_no_lap example_widget)
     = \<lparr>textContent = ''-91.200'', classList = [''text-success'']\<rparr>"
  by (simp add: pace_eval_defs example_pace_no_lap_def)

text \<open>
  The rest of claim C6 holds of the code, with availability as the code checks it: a side
  that is not available keeps its placeholders, and with the player available and neither
  neighbour available the message is logged and the update returns.
\<close>

lemma sector_loop_keeps_prev: "prevSectors (sector_loop data False n w) = prevSectors w"
  by (simp add: sector_loop_def sector_step_prev)

lemma sector_loop_keeps_next: "nextSectors (sector_loop data p False w) = nextSectors w"
  by (simp add: sector_loop_def sector_step_next)

lemma update_keeps_prev_placeholder:
  assumes "\<not> (isDataAvailable (player data) \<and> isDataAvailable (prev data))"
  shows "textContent (prevDelta (PaceComparison_update dn data w)) = ''---'' \<and>
         map textContent (prevSectors (PaceComparison_update dn data w)) = map (\<lambda>el. ''---'') (prevSectors w)"
  using assms
  by (auto simp add: PaceComparison_update_def Let_def clearPrevData_def clearNextData_def
      sector_loop_deltas sector_loop_keeps_prev comp_def)

lemma update_keeps_next_placeholder:
  assumes "\<not> (isDataAvailable (player data) \<and> isDataAvailable (nxt data))"
  shows "textContent (nextDelta (PaceComparison_update dn data w)) = ''---'' \<and>
         map textContent (nextSectors (PaceComparison_update dn data w)) = map (\<lambda>el. ''---'') (nextSectors w)"
  using assms
  by (auto simp add: PaceComparison_update_def Let_def clearPrevData_def clearNextData_def
      sector_loop_deltas sector_loop_keeps_next comp_def)

lemma update_logs_when_no_neighbour:
  assumes "isDataAvailable (player data)" "\<not> isDataAvailable (prev data)" "\<not> isDataAvailable (nxt data)"
  shows "console_errors (PaceComparison_update dn data w) =
           console_errors w @ [''Both prev and next data are unavailable'']"
  using assms
  by (simp add: PaceComparison_update_def Let_def clearPrevData_def clearNextData_def)


section \<open>Properties of the lap time table\<close>

text \<open>
  The loop inserts one row per history entry, latest lap first, and stops after
  \<open>numRows\<close> rows.
\<close>

lemma update_loop_rows:
  "update_loop h i count rows =
     rows @ map (\<lambda>k. render_row h (i - int k)) [0..<min (nat (i + 1)) (numRows - count)]"
proof (induction h i count rows rule: update_loop.induct)
  case (1 h i count rows)
  show ?case
  proof (cases "i \<ge> 0 \<and> count < numRows")
    case True
    then have m: "min (nat (i + 1)) (numRows - count) = Suc (min (nat i) (numRows - (count + 1)))"
      by (auto simp add: nat_add_distrib min_def)
    have "update_loop h i count rows = update_loop h (i - 1) (count + 1) (rows @ [render_row h i])"
      using True by (subst update_loop.simps) simp
    also have "\<dots> = (rows @ [render_row h i]) @
        map (\<lambda>k. render_row h (i - 1 - int k)) [0..<min (nat i) (numRows - (count + 1))]"
      using "1.IH" [OF True] by simp
    also have "\<dots> = rows @ map (\<lambda>k. render_row h (i - int k)) [0..<min (nat (i + 1)) (numRows - count)]"
      unfolding m by (simp add: upt_conv_Cons map_Suc_upt [symmetric] diff_diff_eq del: upt_Suc)
    finally show ?thesis .
  next
    case False
    then have "min (nat (i + 1)) (numRows - count) = 0" by auto
    moreover have "update_loop h i count rows = rows"
      using False by (subst update_loop.simps) auto
    ultimately show ?thesis by simp
  qed
qed

lemma update_rows:
  "LapTimeTableWidget_update (Some h) =
     map (\<lambda>k. render_row h (int (length (lap_time_history_data h)) - 1 - int k))
       [0..<min (length (lap_time_history_data h)) numRows]"
  by (simp add: LapTimeTableWidget_update_def update_loop_rows)

lemma update_length:
  "length (LapTimeTableWidget_update (Some h)) = min (length (lap_time_history_data h)) numRows"
  by (simp add: update_rows)

lemma update_nth:
  assumes "k < length (LapTimeTableWidget_update (Some h))"
  shows "LapTimeTableWidget_update (Some h) ! k =
     render_row h (int (length (lap_time_history_data h) - 1 - k))
   \<and> length (lap_time_history_data h) - 1 - k < length (lap_time_history_data h)"
proof -
  from assms have k: "k < min (length (lap_time_history_data h)) numRows"
    by (simp add: update_length)
  then have "int (length (lap_time_history_data h)) - 1 - int k
      = int (length (lap_time_history_data h) - 1 - k)"
    by auto
  with k show ?thesis by (simp add: update_rows)
qed

lemma applyColourToCell_text:
  "textContent (applyColourToCell cell lapNum time g pb v ty) = textContent cell"
  by (simp add: applyColourToCell_def)

lemma render_row_texts:
  "textContent (lapTimeCell (render_row h (int j))) =
     getValidTimeStr (lap_time_in_ms (lap_time_history_data h ! j)) (lap_time_str (lap_time_history_data h ! j))"
  "textContent (s1TimeCell (render_row h (int j))) =
     getValidTimeStr (sector_1_time_in_ms (lap_time_history_data h ! j)) (sector_1_time_str (lap_time_history_data h ! j))"
  "textContent (s2TimeCell (render_row h (int j))) =
     getValidTimeStr (sector_2_time_in_ms (lap_time_history_data h ! j)) (sector_2_time_str (lap_time_history_data h ! j))"
  "textContent (s3TimeCell (render_row h (int j))) =
     getValidTimeStr (sector_3_time_in_ms (lap_time_history_data h ! j)) (sector_3_time_str (lap_time_history_data h ! j))"
  by (simp_all add: render_row_def Let_def applyColourToCell_text)

lemma applyColourToCell_fresh:
  "classList cell = [] \<Longrightarrow>
   classList (applyColourToCell cell lapNum time g pb v ty) =
     first_matching_rule (g = JNum time \<and> time \<noteq> 0) (pb = JNum lapNum \<and> lapNum \<noteq> 0) (v = 0)"
  by (auto simp add: applyColourToCell_def first_matching_rule_def classList_add_def truthy_def)

lemma render_row_classes:
  "classList (lapTimeCell (render_row h (int j))) =
     first_matching_rule
       (global_fastest_lap_ms h = JNum (lap_time_in_ms (lap_time_history_data h ! j)) \<and>
        lap_time_in_ms (lap_time_history_data h ! j) \<noteq> 0)
       (fastest_lap_number h = JNum (int j + 1))
       (lap_valid_bit_flags (lap_time_history_data h ! j) AND 1 = 0)"
  "classList (s1TimeCell (render_row h (int j))) =
     first_matching_rule
       (global_fastest_s1_ms h = JNum (sector_1_time_in_ms (lap_time_history_data h ! j)) \<and>
        sector_1_time_in_ms (lap_time_history_data h ! j) \<noteq> 0)
       (fastest_s1_lap_number h = JNum (int j + 1))
       (lap_valid_bit_flags (lap_time_history_data h ! j) AND 2 = 0)"
  "classList (s2TimeCell (render_row h (int j))) =
     first_matching_rule
       (global_fastest_s2_ms h = JNum (sector_2_time_in_ms (lap_time_history_data h ! j)) \<and>
        sector_2_time_in_ms (lap_time_history_data h ! j) \<noteq> 0)
       (fastest_s2_lap_number h = JNum (int j + 1))
       (lap_valid_bit_flags (lap_time_history_data h ! j) AND 4 = 0)"
  "classList (s3TimeCell (render_row h (int j))) =
     first_matching_rule
       (global_fastest_s3_ms h = JNum (sector_3_time_in_ms (lap_time_history_data h ! j)) \<and>
        sector_3_time_in_ms (lap_time_history_data h ! j) \<noteq> 0)
       (fastest_s3_lap_number h = JNum (int j + 1))
       (lap_valid_bit_flags (lap_time_history_data h ! j) AND 8 = 0)"
  by (simp_all add: render_row_def Let_def applyColourToCell_fresh insertCell_def
      lapValidMask_def s1ValidMask_def s2ValidMask_def s3ValidMask_def)

lemma example_history_rows: "length (LapTimeTableWidget_update (Some example_history)) = 2"
  by (simp add: update_length numRows_def example_history_def)

text \<open>
  Claim C10: in every row that \<open>update\<close> renders, a lap time or sector time of 0 ms is
  shown as the placeholder \<open>---\<close> instead of its time string (and any other time as its
  time string). Row \<open>k\<close> shows the entry \<open>k\<close> places from the end of the history.
\<close>

theorem zero_time_shown_as_placeholder:
  assumes "k < length (LapTimeTableWidget_update (Some h))"
    and "lapData = lap_time_history_data h ! (length (lap_time_history_data h) - 1 - k)"
    and "row = LapTimeTableWidget_update (Some h) ! k"
  shows "textContent (lapTimeCell row) = (if lap_time_in_ms lapData = 0 then ''---'' else lap_time_str lapData) \<and>
         textContent (s1TimeCell row) = (if sector_1_time_in_ms lapData = 0 then ''---'' else sector_1_time_str lapData) \<and>
         textContent (s2TimeCell row) = (if sector_2_time_in_ms lapData = 0 then ''---'' else sector_2_time_str lapData) \<and>
         textContent (s3TimeCell row) = (if sector_3_time_in_ms lapData = 0 then ''---'' else sector_3_time_str lapData)"
  using update_nth [OF assms(1)] assms(2,3)
  by (simp add: render_row_texts getValidTimeStr_def)

text \<open>The lap under way in the example: no lap time, a first sector, no other sector.\<close>

theorem zero_time_shown_as_placeholder_witness:
  "textContent (lapTimeCell (LapTimeTableWidget_update (Some example_history) ! 0)) = ''---'' \<and>
   textContent (s1TimeCell (LapTimeTableWidget_update (Some example_history) ! 0)) = ''30.000'' \<and>
   textContent (s2TimeCell (LapTimeTableWidget_update (Some example_history) ! 0)) = ''---'' \<and>
   textContent (s3TimeCell (LapTimeTableWidget_update (Some example_history) ! 0)) = ''---''"
proof -
  have k: "0 < length (LapTimeTableWidget_update (Some example_history))"
    by (simp add: example_history_rows)
  have lap: "lap_time_history_data example_history ! (length (lap_time_history_data example_history) - 1 - 0)
      = \<lparr>tyre_set_info = None, lap_time_in_ms = 0, lap_time_str = ''00:00.000'',
          sector_1_time_in_ms = 30000, sector_1_time_str = ''30.000'',
          sector_2_time_in_ms = 0, sector_2_time_str = ''00.000'',
          sector_3_time_in_ms = 0, sector_3_time_str = ''00.000'',
          lap_valid_bit_flags = 13\<rparr>"
    by (simp add: example_history_def)
  from zero_time_shown_as_placeholder [OF k lap [symmetric] refl] show ?thesis
    by simp
qed

text \<open>
  Claim C8, amended: in every rendered row each time cell gets the class of the first
  matching rule in the order fastest overall, personal best, invalid, none, where the
  fastest-overall rule matches a time equal to a global fastest time that is set (not
  0); in particular a lap time equal to a non-zero global fastest lap time is purple even
  when the lap is also the driver's personal best.
\<close>

theorem lap_cell_colour_precedence:
  assumes "k < length (LapTimeTableWidget_update (Some h))"
    and "lapData = lap_time_history_data h ! (length (lap_time_history_data h) - 1 - k)"
    and "row = LapTimeTableWidget_update (Some h) ! k"
    and "lapNumber = int (length (lap_time_history_data h) - k)"
  shows "classList (lapTimeCell row) =
           first_matching_rule
             (global_fastest_lap_ms h = JNum (lap_time_in_ms lapData) \<and> lap_time_in_ms lapData \<noteq> 0)
             (fastest_lap_number h = JNum lapNumber)
             (lap_valid_bit_flags lapData AND 1 = 0) \<and>
         classList (s1TimeCell row) =
           first_matching_rule
             (global_fastest_s1_ms h = JNum (sector_1_time_in_ms lapData) \<and> sector_1_time_in_ms lapData \<noteq> 0)
             (fastest_s1_lap_number h = JNum lapNumber)
             (lap_valid_bit_flags lapData AND 2 = 0) \<and>
         classList (s2TimeCell row) =
           first_matching_rule
             (global_fastest_s2_ms h = JNum (sector_2_time_in_ms lapData) \<and> sector_2_time_in_ms lapData \<noteq> 0)
             (fastest_s2_lap_number h = JNum lapNumber)
             (lap_valid_bit_flags lapData AND 4 = 0) \<and>
         classList (s3TimeCell row) =
           first_matching_rule
             (global_fastest_s3_ms h = JNum (sector_3_time_in_ms lapData) \<and> sector_3_time_in_ms lapData \<noteq> 0)
             (fastest_s3_lap_number h = JNum lapNumber)
             (lap_valid_bit_flags lapData AND 8 = 0) \<and>
         (global_fastest_lap_ms h = JNum (lap_time_in_ms lapData) \<and> lap_time_in_ms lapData \<noteq> 0 \<longrightarrow>
            classList (lapTimeCell row) = [''text-purple''])"
proof -
  from assms(1) have "k < length (lap_time_history_data h)"
    by (simp add: update_length)
  then have num: "int (length (lap_time_history_data h) - 1 - k) + 1 = lapNumber"
    using assms(4) by simp
  have row: "row = render_row h (int (length (lap_time_history_data h) - 1 - k))"
    using update_nth [OF assms(1)] assms(3) by simp
  show ?thesis
    unfolding row assms(2) render_row_classes num
    by (simp add: first_matching_rule_def)
qed

text \<open>
  Lap 1 of the example is both the session's fastest lap and the driver's best: purple.
  Its sectors show the other rules.
\<close>

theorem lap_cell_colour_precedence_witness:
  "classList (lapTimeCell (LapTimeTableWidget_update (Some example_history) ! 1)) = [''text-purple''] \<and>
   classList (s1TimeCell (LapTimeTableWidget_update (Some example_history) ! 1)) = [] \<and>
   classList (s2TimeCell (LapTimeTableWidget_update (Some example_history) ! 1)) = [''text-purple''] \<and>
   classList (s3TimeCell (LapTimeTableWidget_update (Some example_history) ! 1)) = [''text-success'']"
proof -
  have k: "1 < length (LapTimeTableWidget_update (Some example_history))"
    by (simp add: example_history_rows)
  have lap: "lap_time_history_data example_history ! (length (lap_time_history_data example_history) - 1 - 1)
      = \<lparr>tyre_set_info = Some ''Soft'', lap_time_in_ms = 91200, lap_time_str = ''01:31.200'',
          sector_1_time_in_ms = 30400, sector_1_time_str = ''30.400'',
          sector_2_time_in_ms = 30100, sector_2_time_str = ''30.100'',
          sector_3_time_in_ms = 30700, sector_3_time_str = ''30.700'',
          lap_valid_bit_flags = 15\<rparr>"
    by (simp add: example_history_def)
  have num: "1 = int (length (lap_time_history_data example_history) - 1)"
    by (simp add: example_history_def)
  have globals: "global_fastest_lap_ms example_history = JNum 91200"
    "global_fastest_s1_ms example_history = JNum 29800"
    "global_fastest_s2_ms example_history = JNum 30100"
    "global_fastest_s3_ms example_history = JNum 30500"
    "fastest_lap_number example_history = JNum 1"
    "fastest_s1_lap_number example_history = JNum 2"
    "fastest_s2_lap_number example_history = JNum 1"
    "fastest_s3_lap_number example_history = JNum 1"
    by (simp_all add: example_history_def)
  from lap_cell_colour_precedence [OF k lap [symmetric] refl num] show ?thesis
    by (simp add: globals first_matching_rule_def)
qed

text \<open>
  The claim C8 as written classifies every lap time equal to the global fastest as
  fastest overall. The guard \<open>globalBestTime &&\<close> excludes a global fastest of 0: a
  lap time of 0 then equals it and gets no class, or the personal-best class when the
  lap is the driver's best.
\<close>

theorem unset_fastest_lap_counterexample:
  "classList (applyColourToCell insertCell 1 0 (JNum 0) (JNum 0) 1 ''lap'') = [] \<and>
   classList (applyColourToCell insertCell 1 0 (JNum 0) (JNum 1) 1 ''lap'') = [''text-success'']"
  by (simp add: applyColourToCell_def insertCell_def truthy_def classList_add_def)

end
